theory Spec2Isabelle
  imports Main
begin

section \<open>The transaction list view (src/components/transactions/list.tsx)\<close>

subsection \<open>JavaScript values and property reads\<close>

text \<open>
  Amounts are JavaScript numbers in the source; the model takes them as integers (minor
  units), on which the sums and comparisons of the source are exact. A \<open>Date\<close> is an
  opaque time stamp.
\<close>

datatype date = Date int

datatype jsval =
    JUndefined
  | JNull
  | JBool bool
  | JNum int
  | JStr string
  | JDate date
  | JArr "jsval list"
  | JObj "(string \<times> jsval) list"
  | JBuiltin string

text \<open>
  Truthiness of a nullable number and of a nullable string, as \<open>a && b\<close>, \<open>a ? b : c\<close>
  and \<open>if (a)\<close> test them: \<open>null\<close>, \<open>0\<close> and the empty string are falsy.
\<close>

definition truthyNum :: "int option \<Rightarrow> bool" where
  "truthyNum v = (case v of None \<Rightarrow> False | Some n \<Rightarrow> n \<noteq> 0)"

definition truthyStr :: "string option \<Rightarrow> bool" where
  "truthyStr v = (case v of None \<Rightarrow> False | Some s \<Rightarrow> s \<noteq> [])"

definition numVal :: "int option \<Rightarrow> jsval" where
  "numVal v = (case v of None \<Rightarrow> JNull | Some n \<Rightarrow> JNum n)"

definition strVal :: "string option \<Rightarrow> jsval" where
  "strVal v = (case v of None \<Rightarrow> JNull | Some s \<Rightarrow> JStr s)"

text \<open>
  A property read \<open>obj[key]\<close> on an object literal (or on an object parsed from JSON)
  looks at the object's own properties first and then at \<open>Object.prototype\<close>, whose
  members every such object inherits. \<open>JBuiltin k\<close> stands for the member of
  \<open>Object.prototype\<close> found under the key \<open>k\<close> (a built-in function, or the prototype
  object itself for \<open>__proto__\<close>); all of them are truthy and none is \<open>null\<close> or
  \<open>undefined\<close>.
\<close>

definition objectPrototypeKeys :: "string list" where
  "objectPrototypeKeys =
     [''constructor'', ''hasOwnProperty'', ''isPrototypeOf'', ''propertyIsEnumerable'',
      ''toLocaleString'', ''toString'', ''valueOf'', ''__proto__'',
      ''__defineGetter__'', ''__defineSetter__'', ''__lookupGetter__'', ''__lookupSetter__'']"

datatype 'a lookup = Own 'a | Inherited string | Absent

definition getProp :: "(string \<times> 'a) list \<Rightarrow> string \<Rightarrow> 'a lookup" where
  "getProp obj k =
     (case map_of obj k of
        Some v \<Rightarrow> Own v
      | None \<Rightarrow> if k \<in> set objectPrototypeKeys then Inherited k else Absent)"

definition jsGet :: "(string \<times> jsval) list \<Rightarrow> string \<Rightarrow> jsval" where
  "jsGet obj k =
     (case getProp obj k of Own v \<Rightarrow> v | Inherited m \<Rightarrow> JBuiltin m | Absent \<Rightarrow> JUndefined)"

text \<open>
  \<open>Object.entries(obj)\<close> lists the own properties of an object whose keys are array
  indices (the decimal numeral, without leading zeros, of an integer below
  \<open>2\<^sup>3\<^sup>2 - 1\<close>) first, in ascending numeric order, and then the other keys in the
  order in which they were added. The object is given as the list of its properties in
  the order in which they were added, each key once.
\<close>

definition isDigit :: "char \<Rightarrow> bool" where
  "isDigit c = (c \<in> set ''0123456789'')"

definition digitValue :: "char \<Rightarrow> nat" where
  "digitValue c = (case map_of (zip ''0123456789'' [0, 1, 2, 3, 4, 5, 6, 7, 8, 9]) c of None \<Rightarrow> 0 | Some d \<Rightarrow> d)"

definition decimalValue :: "string \<Rightarrow> nat" where
  "decimalValue s = foldl (\<lambda>n c. 10 * n + digitValue c) 0 s"

definition isArrayIndex :: "string \<Rightarrow> bool" where
  "isArrayIndex s =
     (case s of
        [] \<Rightarrow> False
      | c # rest \<Rightarrow>
          list_all isDigit s \<and> (if c = CHR ''0'' then rest = [] else True)
          \<and> decimalValue s < 4294967295)"

definition objectEntries :: "(string \<times> 'a) list \<Rightarrow> (string \<times> 'a) list" where
  "objectEntries obj =
     sort_key (\<lambda>p. decimalValue (fst p)) (filter (\<lambda>p. isArrayIndex (fst p)) obj)
     @ filter (\<lambda>p. \<not> isArrayIndex (fst p)) obj"

subsection \<open>Transactions and field definitions\<close>

text \<open>
  Modelled from the spec: the types \<open>Transaction\<close>, \<open>Field\<close>, \<open>Project\<close> and
  \<open>Category\<close> are imported from \<open>@/prisma/client\<close>, which is not among the source
  files. The records hold the attributes that the spec's data model lists and that the
  component reads, each nullable where the component tests it for presence. \<open>tid\<close>,
  \<open>tname\<close> and \<open>ttype\<close> are the source's \<open>id\<close>, \<open>name\<close> and \<open>type\<close>;
  \<open>pname\<close>, \<open>pcolor\<close>, \<open>cname\<close> and \<open>ccolor\<close> are \<open>name\<close> and \<open>color\<close> of
  the joined project and category. \<open>extra\<close> is \<open>null\<close> or an object of own
  properties, and \<open>files\<close> is the array the component casts it to.
\<close>

record Project =
  pname :: string
  pcolor :: string

record Category =
  cname :: string
  ccolor :: string

record Transaction =
  tid :: string
  tname :: "string option"
  merchant :: "string option"
  issuedAt :: "date option"
  total :: "int option"
  currencyCode :: "string option"
  convertedTotal :: "int option"
  convertedCurrencyCode :: "string option"
  ttype :: "string option"
  projectCode :: "string option"
  project :: "Project option"
  categoryCode :: "string option"
  category :: "Category option"
  files :: "string list"
  extra :: "(string \<times> jsval) list option"

record Field =
  code :: string
  name :: string
  isVisibleInList :: bool
  isExtra :: bool

text \<open>The transaction as the object that \<open>transaction[field.code]\<close> reads.\<close>

definition transactionObject :: "Transaction \<Rightarrow> (string \<times> jsval) list" where
  "transactionObject t =
     [(''id'', JStr (tid t)),
      (''name'', strVal (tname t)),
      (''merchant'', strVal (merchant t)),
      (''issuedAt'', (case issuedAt t of None \<Rightarrow> JNull | Some d \<Rightarrow> JDate d)),
      (''total'', numVal (total t)),
      (''currencyCode'', strVal (currencyCode t)),
      (''convertedTotal'', numVal (convertedTotal t)),
      (''convertedCurrencyCode'', strVal (convertedCurrencyCode t)),
      (''type'', strVal (ttype t)),
      (''projectCode'', strVal (projectCode t)),
      (''project'', (case project t of None \<Rightarrow> JNull
          | Some p \<Rightarrow> JObj [(''name'', JStr (pname p)), (''color'', JStr (pcolor p))])),
      (''categoryCode'', strVal (categoryCode t)),
      (''category'', (case category t of None \<Rightarrow> JNull
          | Some c \<Rightarrow> JObj [(''name'', JStr (cname c)), (''color'', JStr (ccolor c))])),
      (''files'', JArr (map JStr (files t))),
      (''extra'', (case extra t of None \<Rightarrow> JNull | Some e \<Rightarrow> JObj e))]"

subsection \<open>Rendered output\<close>

text \<open>
  What a formatter returns: a JavaScript value placed as a child (\<open>Val\<close>), the display
  string of a helper that is not part of this file, kept as the call that produces it
  (\<open>formatCurrency(amount, code)\<close> of \<open>@/lib/utils\<close>, \<open>formatDate(date, pattern)\<close>
  of \<open>date-fns\<close>, and the built-in \<open>String(v)\<close>), or an element with its attributes
  and children. \<open>ClassNames\<close> holds the arguments of \<open>cn(...)\<close> of \<open>@/lib/utils\<close>.
\<close>

datatype attr =
    ClassName string
  | ClassNames "jsval list"
  | BackgroundColor "string option"
  | Key string

datatype node =
    Val jsval
  | FormatCurrency int string
  | FormatDate date string
  | StringOf jsval
  | Element string "attr list" "node list"

subsection \<open>Currency aggregation (collaborator \<open>@/lib/stats\<close>)\<close>

text \<open>
  \<open>calcNetTotalPerCurrency\<close> and \<open>calcTotalPerCurrency\<close> are imported from
  \<open>@/lib/stats\<close>, which is not among the source files; the footer of the "total"
  column calls them and reads the result with \<open>Object.entries\<close>. A mapping from
  currency codes to sums is the list of the properties of the object returned, one per
  currency code, in the order in which the codes are first met.
\<close>

text \<open>
  Modelled from the spec: the step both aggregations share, missing with
  \<open>@/lib/stats\<close>. It adds an amount to the entry of a currency code, and appends a new
  entry when the code has none ("grouped by currency code", "one row per distinct
  currency code encountered, in the order first encountered").
\<close>

fun addAmount :: "string \<Rightarrow> int \<Rightarrow> (string \<times> int) list \<Rightarrow> (string \<times> int) list" where
  "addAmount c a [] = [(c, a)]"
| "addAmount c a ((k, v) # acc) =
     (if k = c then (k, v + a) # acc else (k, v) # addAmount c a acc)"

text \<open>
  Modelled from the spec: the amount a transaction contributes, missing with
  \<open>@/lib/stats\<close>: its total, with the sign it carries; a transaction without a total
  adds nothing.
\<close>

definition amountOf :: "Transaction \<Rightarrow> int" where
  "amountOf t = (case total t of None \<Rightarrow> 0 | Some a \<Rightarrow> a)"

text \<open>
  Modelled from the spec: \<open>calcNetTotalPerCurrency\<close> of \<open>@/lib/stats\<close>, the spec's
  \<open>netTotalPerCurrency(transactions) -> mapping<currencyCode, signedSum>\<close>: "signed sum
  of total amounts grouped by currency code". A transaction without a currency code
  belongs to no group.
\<close>

definition calcNetTotalPerCurrency :: "Transaction list \<Rightarrow> (string \<times> int) list" where
  "calcNetTotalPerCurrency ts =
     foldl (\<lambda>acc t. case currencyCode t of None \<Rightarrow> acc | Some c \<Rightarrow> addAmount c (amountOf t) acc)
       [] ts"

text \<open>
  Modelled from the spec: \<open>calcTotalPerCurrency\<close> of \<open>@/lib/stats\<close>, the spec's
  \<open>turnoverPerCurrency(transactions) -> mapping<currencyCode, unsignedSum>\<close>: "sum of
  absolute transaction magnitudes grouped by currency code".
\<close>

definition calcTotalPerCurrency :: "Transaction list \<Rightarrow> (string \<times> int) list" where
  "calcTotalPerCurrency ts =
     foldl (\<lambda>acc t. case currencyCode t of None \<Rightarrow> acc | Some c \<Rightarrow> addAmount c \<bar>amountOf t\<bar> acc)
       [] ts"

subsection \<open>The field renderer registry\<close>

record FieldRenderer =
  rname :: string
  rcode :: string
  classes :: "string option"
  sortable :: bool
  formatValue :: "(Transaction \<Rightarrow> node) option"
  footerValue :: "(Transaction list \<Rightarrow> node) option"

text \<open>
  The colour table \<open>{ income: ..., expense: ..., other: ... }[transaction.type || "other"]\<close>
  of the two amount formatters.
\<close>

definition typeColor :: "string option \<Rightarrow> jsval" where
  "typeColor ty =
     jsGet [(''income'', JStr ''text-green-500''), (''expense'', JStr ''text-red-500''),
            (''other'', JStr ''text-black'')]
       (case ty of None \<Rightarrow> ''other'' | Some s \<Rightarrow> if s = [] then ''other'' else s)"

definition issuedAtFormatValue :: "Transaction \<Rightarrow> node" where
  "issuedAtFormatValue t =
     (case issuedAt t of Some d \<Rightarrow> FormatDate d ''yyyy-MM-dd'' | None \<Rightarrow> Val (JStr []))"

definition projectCodeFormatValue :: "Transaction \<Rightarrow> node" where
  "projectCodeFormatValue t =
     (if truthyStr (projectCode t) then
        Element ''Badge''
          [ClassName ''whitespace-nowrap'', BackgroundColor (map_option pcolor (project t))]
          [Val (JStr (case project t of None \<Rightarrow> [] | Some p \<Rightarrow> pname p))]
      else Val (JStr ''-''))"

definition categoryCodeFormatValue :: "Transaction \<Rightarrow> node" where
  "categoryCodeFormatValue t =
     (if truthyStr (categoryCode t) then
        Element ''Badge''
          [ClassName ''whitespace-nowrap'', BackgroundColor (map_option ccolor (category t))]
          [Val (JStr (case category t of None \<Rightarrow> [] | Some c \<Rightarrow> cname c))]
      else Val (JStr ''-''))"

definition filesFormatValue :: "Transaction \<Rightarrow> node" where
  "filesFormatValue t =
     Element ''div'' [ClassName ''flex items-center gap-2 text-sm'']
       [Element ''File'' [ClassName ''w-4 h-4''] [],
        Val (JNum (int (length (files t))))]"

text \<open>
  The two children of the inner \<open>div\<close> of the "total" cell: the amount inside the first
  \<open>span\<close>, and the value of the \<open>&&\<close> chain that follows it (the first falsy operand,
  or the second \<open>span\<close>).
\<close>

definition totalPrimary :: "Transaction \<Rightarrow> node" where
  "totalPrimary t =
     (if truthyNum (total t) \<and> truthyStr (currencyCode t)
      then (case (total t, currencyCode t) of
              (Some a, Some c) \<Rightarrow> FormatCurrency a c
            | _ \<Rightarrow> Val (numVal (total t)))
      else Val (numVal (total t)))"

definition totalConverted :: "Transaction \<Rightarrow> node" where
  "totalConverted t =
     (case convertedTotal t of
        None \<Rightarrow> Val JNull
      | Some a \<Rightarrow>
          if a = 0 then Val (JNum a)
          else (case convertedCurrencyCode t of
                  None \<Rightarrow> Val JNull
                | Some c \<Rightarrow>
                    if c = [] then Val (JStr c)
                    else if currencyCode t = Some c then Val (JBool False)
                    else Element ''span'' [ClassName ''text-sm -mt-1'']
                           [Val (JStr ''(''), FormatCurrency a c, Val (JStr '')'')]))"

definition totalFormatValue :: "Transaction \<Rightarrow> node" where
  "totalFormatValue t =
     Element ''div'' [ClassName ''text-right text-lg'']
       [Element ''div'' [ClassNames [typeColor (ttype t), JStr ''flex flex-col justify-end'']]
          [Element ''span'' [] [totalPrimary t], totalConverted t]]"

definition totalFooterValue :: "Transaction list \<Rightarrow> node" where
  "totalFooterValue transactions =
     (let netTotalPerCurrency = calcNetTotalPerCurrency transactions;
          turnoverPerCurrency = calcTotalPerCurrency transactions
      in Element ''div'' [ClassName ''flex flex-col gap-3 text-right'']
           [Element ''dl'' [ClassName ''space-y-1'']
              (Element ''dt''
                 [ClassName ''text-xs font-semibold text-muted-foreground uppercase tracking-wide'']
                 [Val (JStr ''Net Total'')]
               # map (\<lambda>(currency, amount).
                     Element ''dd''
                       [Key (''net-'' @ currency),
                        ClassNames [JStr ''text-sm first:text-base font-medium'',
                          JStr (if amount \<ge> 0 then ''text-green-600'' else ''text-red-600'')]]
                       [FormatCurrency amount currency])
                   (objectEntries netTotalPerCurrency)),
            Element ''dl'' [ClassName ''space-y-1'']
              (Element ''dt''
                 [ClassName ''text-xs font-semibold text-muted-foreground uppercase tracking-wide'']
                 [Val (JStr ''Turnover'')]
               # map (\<lambda>(currency, amount).
                     Element ''dd''
                       [Key (''turnover-'' @ currency), ClassName ''text-sm text-muted-foreground'']
                       [FormatCurrency amount currency])
                   (objectEntries turnoverPerCurrency))])"

definition convertedTotalFormatValue :: "Transaction \<Rightarrow> node" where
  "convertedTotalFormatValue t =
     Element ''div''
       [ClassNames [typeColor (ttype t), JStr ''flex flex-col justify-end text-right text-lg'']]
       [if truthyNum (convertedTotal t) \<and> truthyStr (convertedCurrencyCode t)
        then (case (convertedTotal t, convertedCurrencyCode t) of
                (Some a, Some c) \<Rightarrow> FormatCurrency a c
              | _ \<Rightarrow> Val (numVal (convertedTotal t)))
        else Val (numVal (convertedTotal t))]"

definition standardFieldRenderers :: "(string \<times> FieldRenderer) list" where
  "standardFieldRenderers =
     [(''name'',
        \<lparr>rname = ''Name'', rcode = ''name'',
         classes = Some ''font-medium min-w-[120px] max-w-[300px] overflow-hidden'',
         sortable = True, formatValue = None, footerValue = None\<rparr>),
      (''merchant'',
        \<lparr>rname = ''Merchant'', rcode = ''merchant'',
         classes = Some ''min-w-[120px] max-w-[250px] overflow-hidden'',
         sortable = True, formatValue = None, footerValue = None\<rparr>),
      (''issuedAt'',
        \<lparr>rname = ''Date'', rcode = ''issuedAt'', classes = Some ''min-w-[100px]'',
         sortable = True, formatValue = Some issuedAtFormatValue, footerValue = None\<rparr>),
      (''projectCode'',
        \<lparr>rname = ''Project'', rcode = ''projectCode'', classes = None,
         sortable = True, formatValue = Some projectCodeFormatValue, footerValue = None\<rparr>),
      (''categoryCode'',
        \<lparr>rname = ''Category'', rcode = ''categoryCode'', classes = None,
         sortable = True, formatValue = Some categoryCodeFormatValue, footerValue = None\<rparr>),
      (''files'',
        \<lparr>rname = ''Files'', rcode = ''files'', classes = None,
         sortable = False, formatValue = Some filesFormatValue, footerValue = None\<rparr>),
      (''total'',
        \<lparr>rname = ''Total'', rcode = ''total'', classes = Some ''text-right'',
         sortable = True, formatValue = Some totalFormatValue,
         footerValue = Some totalFooterValue\<rparr>),
      (''convertedTotal'',
        \<lparr>rname = ''Converted Total'', rcode = ''convertedTotal'', classes = Some ''text-right'',
         sortable = True, formatValue = Some convertedTotalFormatValue, footerValue = None\<rparr>),
      (''currencyCode'',
        \<lparr>rname = ''Currency'', rcode = ''currencyCode'', classes = Some ''text-right'',
         sortable = True, formatValue = None, footerValue = None\<rparr>)]"

text \<open>
  \<open>getFieldRenderer\<close> returns whatever truthy value the read
  \<open>standardFieldRenderers[field.code]\<close> finds, and the fallback object otherwise. The
  value found is one of the nine renderers or, for a code that names a member of
  \<open>Object.prototype\<close>, that inherited member.
\<close>

datatype rendererObject = Configured FieldRenderer | PrototypeMember string

definition fallbackRenderer :: "Field \<Rightarrow> FieldRenderer" where
  "fallbackRenderer field =
     \<lparr>rname = name field, rcode = code field, classes = Some [], sortable = False,
      formatValue = None, footerValue = None\<rparr>"

definition getFieldRenderer :: "Field \<Rightarrow> rendererObject" where
  "getFieldRenderer field =
     (case getProp standardFieldRenderers (code field) of
        Own r \<Rightarrow> Configured r
      | Inherited k \<Rightarrow> PrototypeMember k
      | Absent \<Rightarrow> Configured (fallbackRenderer field))"

text \<open>
  The properties the component reads from a renderer. An inherited member of
  \<open>Object.prototype\<close> has none of \<open>sortable\<close>, \<open>classes\<close>, \<open>formatValue\<close> and
  \<open>footerValue\<close> (each reads \<open>undefined\<close>); its \<open>name\<close> is the built-in function's
  own name.
\<close>

fun rendererSortable :: "rendererObject \<Rightarrow> bool" where
  "rendererSortable (Configured r) = sortable r"
| "rendererSortable (PrototypeMember k) = False"

fun rendererFormatValue :: "rendererObject \<Rightarrow> (Transaction \<Rightarrow> node) option" where
  "rendererFormatValue (Configured r) = formatValue r"
| "rendererFormatValue (PrototypeMember k) = None"

fun rendererFooterValue :: "rendererObject \<Rightarrow> (Transaction list \<Rightarrow> node) option" where
  "rendererFooterValue (Configured r) = footerValue r"
| "rendererFooterValue (PrototypeMember k) = None"

fun rendererClasses :: "rendererObject \<Rightarrow> string option" where
  "rendererClasses (Configured r) = classes r"
| "rendererClasses (PrototypeMember k) = None"

fun rendererName :: "rendererObject \<Rightarrow> string option" where
  "rendererName (Configured r) = Some (rname r)"
| "rendererName (PrototypeMember k) =
     (if k = ''constructor'' then Some ''Object''
      else if k = ''__proto__'' then None
      else Some k)"

record FieldWithRenderer = Field +
  renderer :: rendererObject

definition withRenderer :: "Field \<Rightarrow> FieldWithRenderer" where
  "withRenderer field =
     \<lparr>code = code field, name = name field, isVisibleInList = isVisibleInList field,
      isExtra = isExtra field, renderer = getFieldRenderer field\<rparr>"

definition visibleFields :: "Field list \<Rightarrow> FieldWithRenderer list" where
  "visibleFields fieldList = map withRenderer (filter isVisibleInList fieldList)"

subsection \<open>Sort state and the \<open>ordering\<close> query parameter\<close>

datatype direction = Asc | Desc

record sortState =
  field :: "string option"
  direction :: "direction option"

text \<open>
  A \<open>URLSearchParams\<close> object is an ordered list of name-value pairs, in which a name
  may occur more than once. \<open>get\<close> returns the value of the first pair with the name,
  \<open>delete\<close> removes every pair with the name, and \<open>set\<close> overwrites the first pair
  with the name and removes the others, or appends a pair when there is none. Serialising
  a list with \<open>toString()\<close> and parsing the string again gives the same list, so the
  copy \<open>new URLSearchParams(searchParams.toString())\<close> is the list itself, and the
  query string pushed to the router is kept as the list it serialises.
\<close>

type_synonym URLSearchParams = "(string \<times> string) list"

definition getParam :: "URLSearchParams \<Rightarrow> string \<Rightarrow> string option" where
  "getParam params k = map_of params k"

definition deleteParam :: "URLSearchParams \<Rightarrow> string \<Rightarrow> URLSearchParams" where
  "deleteParam params k = filter (\<lambda>p. fst p \<noteq> k) params"

fun setParam :: "URLSearchParams \<Rightarrow> string \<Rightarrow> string \<Rightarrow> URLSearchParams" where
  "setParam [] k v = [(k, v)]"
| "setParam (p # params) k v =
     (if fst p = k then (k, v) # deleteParam params k else p # setParam params k v)"

text \<open>
  The initial sort state, from \<open>ordering = searchParams.get("ordering")\<close>:
  \<open>!ordering\<close> holds for \<open>null\<close> and for the empty string.
\<close>

fun decodeOrdering :: "string option \<Rightarrow> sortState" where
  "decodeOrdering None = \<lparr>field = None, direction = None\<rparr>"
| "decodeOrdering (Some []) = \<lparr>field = None, direction = None\<rparr>"
| "decodeOrdering (Some (c # rest)) =
     (let isDesc = (c = CHR ''-'')
      in \<lparr>field = (if isDesc then Some rest else Some (c # rest)),
          direction = (if isDesc then Some Desc else Some Asc)\<rparr>)"

definition initialSorting :: "URLSearchParams \<Rightarrow> sortState" where
  "initialSorting searchParams = decodeOrdering (getParam searchParams ''ordering'')"

definition handleSort :: "sortState \<Rightarrow> string \<Rightarrow> sortState" where
  "handleSort sorting f =
     (let newDirection =
            (if field sorting = Some f then
               (if direction sorting = Some Asc then Some Desc
                else if direction sorting = Some Desc then None
                else Some Asc)
             else Some Asc)
      in \<lparr>field = (if newDirection = None then None else Some f), direction = newDirection\<rparr>)"

text \<open>The header cell's \<open>onClick\<close>: \<open>field.renderer.sortable && handleSort(field.code)\<close>.\<close>

definition headerClick :: "FieldWithRenderer \<Rightarrow> sortState \<Rightarrow> sortState" where
  "headerClick fw sorting =
     (if rendererSortable (renderer fw) then handleSort sorting (code fw) else sorting)"

text \<open>
  The effect that runs on every change of the sort state: the parameters it builds
  (\<open>sorting.field && sorting.direction\<close> is falsy for a \<open>null\<close> or empty field and for
  a \<open>null\<close> direction), and the route it pushes.
\<close>

definition orderingParams :: "sortState \<Rightarrow> URLSearchParams \<Rightarrow> URLSearchParams" where
  "orderingParams sorting searchParams =
     (case (field sorting, direction sorting) of
        (Some f, Some d) \<Rightarrow>
          if f = [] then deleteParam searchParams ''ordering''
          else setParam searchParams ''ordering'' (if d = Desc then ''-'' @ f else f)
      | _ \<Rightarrow> deleteParam searchParams ''ordering'')"

record route =
  path :: string
  query :: URLSearchParams

definition sortEffect :: "sortState \<Rightarrow> URLSearchParams \<Rightarrow> route" where
  "sortEffect sorting searchParams =
     \<lparr>path = ''/transactions'', query = orderingParams sorting searchParams\<rparr>"

definition handleRowClick :: "string \<Rightarrow> route" where
  "handleRowClick i = \<lparr>path = ''/transactions/'' @ i, query = []\<rparr>"

subsection \<open>Row selection\<close>

definition toggleAllRows :: "Transaction list \<Rightarrow> string list \<Rightarrow> string list" where
  "toggleAllRows transactions selectedIds =
     (if length selectedIds = length transactions then [] else map tid transactions)"

definition toggleOneRow :: "string \<Rightarrow> string list \<Rightarrow> string list" where
  "toggleOneRow i selectedIds =
     (if i \<in> set selectedIds then filter (\<lambda>item. item \<noteq> i) selectedIds
      else selectedIds @ [i])"

text \<open>
  The component between two events: the transaction list it was given and its two
  pieces of state. A new transaction list arrives as a new value of the
  \<open>transactions\<close> property; \<open>useState\<close> keeps \<open>selectedIds\<close> and \<open>sorting\<close> across
  renders, and no effect of the component depends on \<open>transactions\<close>.
\<close>

record component =
  transactions :: "Transaction list"
  selectedIds :: "string list"
  sorting :: sortState

definition mount :: "Transaction list \<Rightarrow> URLSearchParams \<Rightarrow> component" where
  "mount ts searchParams =
     \<lparr>transactions = ts, selectedIds = [], sorting = initialSorting searchParams\<rparr>"

datatype event =
    ToggleAll
  | ToggleOne string
  | ActionComplete
  | NewTransactions "Transaction list"
  | SortClick FieldWithRenderer

fun step :: "component \<Rightarrow> event \<Rightarrow> component" where
  "step c ToggleAll = c\<lparr>selectedIds := toggleAllRows (transactions c) (selectedIds c)\<rparr>"
| "step c (ToggleOne i) = c\<lparr>selectedIds := toggleOneRow i (selectedIds c)\<rparr>"
| "step c ActionComplete = c\<lparr>selectedIds := []\<rparr>"
| "step c (NewTransactions ts) = c\<lparr>transactions := ts\<rparr>"
| "step c (SortClick fw) = c\<lparr>sorting := headerClick fw (sorting c)\<rparr>"

definition run :: "component \<Rightarrow> event list \<Rightarrow> component" where
  "run c events = foldl step c events"

text \<open>The selection holds only identifiers of listed transactions.\<close>

definition selectionListed :: "component \<Rightarrow> bool" where
  "selectionListed c = (set (selectedIds c) \<subseteq> set (map tid (transactions c)))"

subsection \<open>Cell values\<close>

text \<open>
  \<open>transaction.extra?.[field.code] ?? ""\<close> gives the empty string when \<open>extra\<close> is
  \<open>null\<close> and when the value read is \<open>null\<close> or \<open>undefined\<close>.
\<close>

definition renderFieldInTable :: "Transaction \<Rightarrow> FieldWithRenderer \<Rightarrow> node" where
  "renderFieldInTable transaction fw =
     (if isExtra fw then
        (case extra transaction of
           None \<Rightarrow> Val (JStr [])
         | Some e \<Rightarrow>
             (let v = jsGet e (code fw)
              in if v = JUndefined \<or> v = JNull then Val (JStr []) else Val v))
      else (case rendererFormatValue (renderer fw) of
              Some format \<Rightarrow> format transaction
            | None \<Rightarrow> StringOf (jsGet (transactionObject transaction) (code fw))))"

definition footerCell :: "Transaction list \<Rightarrow> FieldWithRenderer \<Rightarrow> node" where
  "footerCell ts fw =
     (case rendererFooterValue (renderer fw) of
        Some footer \<Rightarrow> footer ts
      | None \<Rightarrow> Val (JStr []))"

subsection \<open>Sample inputs\<close>

definition sampleTransaction :: "string \<Rightarrow> int option \<Rightarrow> string option \<Rightarrow> Transaction" where
  "sampleTransaction i amount currency =
     \<lparr>tid = i, tname = None, merchant = None, issuedAt = None, total = amount,
      currencyCode = currency, convertedTotal = None, convertedCurrencyCode = None,
      ttype = None, projectCode = None, project = None, categoryCode = None,
      category = None, files = [], extra = None\<rparr>"

definition sampleField :: "string \<Rightarrow> bool \<Rightarrow> Field" where
  "sampleField c isX = \<lparr>code = c, name = ''Notes'', isVisibleInList = True, isExtra = isX\<rparr>"

definition listABC :: "Transaction list" where
  "listABC = [sampleTransaction ''A'' None None, sampleTransaction ''B'' None None,
              sampleTransaction ''C'' None None]"

definition convertedSample :: "string option \<Rightarrow> int \<Rightarrow> string \<Rightarrow> int \<Rightarrow> string \<Rightarrow> Transaction" where
  "convertedSample ty a c a' c' =
     (sampleTransaction ''t1'' (Some a) (Some c))
       \<lparr>convertedTotal := Some a', convertedCurrencyCode := Some c', ttype := ty\<rparr>"

definition extraSample :: Transaction where
  "extraSample = (sampleTransaction ''t1'' None None)\<lparr>extra := Some [(''custom2'', JStr ''x'')]\<rparr>"

definition selectedX :: component where
  "selectedX = run (mount [sampleTransaction ''X'' None None] []) [ToggleOne ''X'']"

definition footerExample :: "Transaction list" where
  "footerExample =
     [sampleTransaction ''t1'' (Some 100) (Some ''USD''),
      sampleTransaction ''t2'' (Some (- 40)) (Some ''USD''),
      sampleTransaction ''t3'' (Some 50) (Some ''EUR'')]"

section \<open>Properties\<close>

subsection \<open>Query parameters\<close>

lemma getParam_deleteParam: "getParam (deleteParam ps k) k = None"
  by (induction ps) (auto simp: getParam_def deleteParam_def)

lemma getParam_setParam: "getParam (setParam ps k v) k = Some v"
  by (induction ps) (auto simp: getParam_def)

lemma others_deleteParam:
  "filter (\<lambda>p. fst p \<noteq> k) (deleteParam ps k) = filter (\<lambda>p. fst p \<noteq> k) ps"
  by (simp add: deleteParam_def)

lemma others_setParam:
  "filter (\<lambda>p. fst p \<noteq> k) (setParam ps k v) = filter (\<lambda>p. fst p \<noteq> k) ps"
  by (induction ps) (auto simp: deleteParam_def)

lemma orderingParams_cases:
  "orderingParams s ps = deleteParam ps ''ordering''
   \<or> (\<exists>v. orderingParams s ps = setParam ps ''ordering'' v)"
  by (auto simp: orderingParams_def split: option.splits)

subsection \<open>Sort state\<close>

lemma sortable_codes:
  "rendererSortable (getFieldRenderer f) \<longleftrightarrow>
     code f \<in> {''name'', ''merchant'', ''issuedAt'', ''projectCode'', ''categoryCode'',
                ''total'', ''convertedTotal'', ''currencyCode''}"
  by (simp add: getFieldRenderer_def getProp_def standardFieldRenderers_def
      objectPrototypeKeys_def fallbackRenderer_def)

text \<open>
  C1. A click on the header of a sortable column \<open>fw\<close> takes the sort state from
  unsorted to ascending on the column's code, from ascending on it to descending on it,
  and from descending on it back to unsorted; from any state whose sort field is not the
  column's code it gives ascending on the column's code. A click on the header of a
  column that is not sortable leaves the sort state as it is.
\<close>

theorem sort_cycle:
  "(rendererSortable (renderer fw) \<longrightarrow>
      headerClick fw \<lparr>field = None, direction = None\<rparr>
        = \<lparr>field = Some (code fw), direction = Some Asc\<rparr>
    \<and> headerClick fw \<lparr>field = Some (code fw), direction = Some Asc\<rparr>
        = \<lparr>field = Some (code fw), direction = Some Desc\<rparr>
    \<and> headerClick fw \<lparr>field = Some (code fw), direction = Some Desc\<rparr>
        = \<lparr>field = None, direction = None\<rparr>
    \<and> (\<forall>s. field s \<noteq> Some (code fw) \<longrightarrow>
          headerClick fw s = \<lparr>field = Some (code fw), direction = Some Asc\<rparr>))
   \<and> (\<not> rendererSortable (renderer fw) \<longrightarrow> (\<forall>s. headerClick fw s = s))"
  by (simp add: headerClick_def handleSort_def)

theorem sort_cycle_witness:
  "rendererSortable (renderer (withRenderer (sampleField ''name'' False)))
   \<and> headerClick (withRenderer (sampleField ''name'' False)) \<lparr>field = None, direction = None\<rparr>
       = \<lparr>field = Some ''name'', direction = Some Asc\<rparr>
   \<and> headerClick (withRenderer (sampleField ''name'' False))
         \<lparr>field = Some ''name'', direction = Some Asc\<rparr>
       = \<lparr>field = Some ''name'', direction = Some Desc\<rparr>
   \<and> headerClick (withRenderer (sampleField ''name'' False))
         \<lparr>field = Some ''name'', direction = Some Desc\<rparr>
       = \<lparr>field = None, direction = None\<rparr>
   \<and> headerClick (withRenderer (sampleField ''name'' False))
         \<lparr>field = Some ''total'', direction = Some Desc\<rparr>
       = \<lparr>field = Some ''name'', direction = Some Asc\<rparr>
   \<and> \<not> rendererSortable (renderer (withRenderer (sampleField ''files'' False)))
   \<and> headerClick (withRenderer (sampleField ''files'' False))
         \<lparr>field = Some ''total'', direction = Some Desc\<rparr>
       = \<lparr>field = Some ''total'', direction = Some Desc\<rparr>"
  using sort_cycle [of "withRenderer (sampleField ''name'' False)"]
    sort_cycle [of "withRenderer (sampleField ''files'' False)"]
  by (simp add: withRenderer_def sampleField_def getFieldRenderer_def getProp_def
      standardFieldRenderers_def)

text \<open>
  C2. For each of the three tokens the spec names (no \<open>ordering\<close> parameter, \<open>name\<close>
  and \<open>-issuedAt\<close>), decoding the token into a sort state and running the effect on
  that state, over any query string, leaves a query whose \<open>ordering\<close> parameter is the
  token again.
\<close>

theorem ordering_round_trip:
  "decodeOrdering None = \<lparr>field = None, direction = None\<rparr>
   \<and> decodeOrdering (Some ''name'') = \<lparr>field = Some ''name'', direction = Some Asc\<rparr>
   \<and> decodeOrdering (Some ''-issuedAt'') = \<lparr>field = Some ''issuedAt'', direction = Some Desc\<rparr>
   \<and> getParam (query (sortEffect (decodeOrdering None) ps)) ''ordering'' = None
   \<and> getParam (query (sortEffect (decodeOrdering (Some ''name'')) ps)) ''ordering''
       = Some ''name''
   \<and> getParam (query (sortEffect (decodeOrdering (Some ''-issuedAt'')) ps)) ''ordering''
       = Some ''-issuedAt''"
  by (simp add: sortEffect_def orderingParams_def getParam_deleteParam getParam_setParam)

text \<open>
  C9. The query pushed to the router when the sort state changes holds every parameter of
  the current query string other than \<open>ordering\<close>, with its value, in the same order;
  the effect only deletes the \<open>ordering\<close> parameter or sets it.
\<close>

theorem sort_effect_keeps_other_params:
  "filter (\<lambda>p. fst p \<noteq> ''ordering'') (query (sortEffect s ps))
     = filter (\<lambda>p. fst p \<noteq> ''ordering'') ps
   \<and> (query (sortEffect s ps) = deleteParam ps ''ordering''
      \<or> (\<exists>v. query (sortEffect s ps) = setParam ps ''ordering'' v))"
proof -
  have "filter (\<lambda>p. fst p \<noteq> ''ordering'') (orderingParams s ps)
          = filter (\<lambda>p. fst p \<noteq> ''ordering'') ps"
    using orderingParams_cases [of s ps] others_deleteParam others_setParam by metis
  then show ?thesis
    using orderingParams_cases [of s ps] by (simp add: sortEffect_def)
qed

text \<open>
  C10. The token \<open>-\<close> decodes to the empty field name with direction descending; the
  effect run on that state deletes the \<open>ordering\<close> parameter, so the query it pushes has
  no \<open>ordering\<close> parameter and the token \<open>-\<close> does not come back.
\<close>

theorem ordering_dash_not_round_trip:
  "decodeOrdering (Some ''-'') = \<lparr>field = Some [], direction = Some Desc\<rparr>
   \<and> query (sortEffect (decodeOrdering (Some ''-'')) ps) = deleteParam ps ''ordering''
   \<and> getParam (query (sortEffect (decodeOrdering (Some ''-'')) ps)) ''ordering'' = None
   \<and> getParam (query (sortEffect (decodeOrdering (Some ''-'')) ps)) ''ordering''
       \<noteq> Some ''-''"
  by (simp add: sortEffect_def orderingParams_def getParam_deleteParam)

subsection \<open>Row selection\<close>

lemma eq_length_iff_all_selected:
  assumes "distinct ids" and "distinct sel" and "set sel \<subseteq> set ids"
  shows "length sel = length ids \<longleftrightarrow> set ids \<subseteq> set sel"
proof
  assume "length sel = length ids"
  then have "card (set sel) = card (set ids)"
    using assms by (simp add: distinct_card)
  then have "set sel = set ids"
    using assms(3) by (simp add: card_subset_eq)
  then show "set ids \<subseteq> set sel" by simp
next
  assume "set ids \<subseteq> set sel"
  then have "set sel = set ids" using assms(3) by auto
  then have "card (set sel) = card (set ids)" by simp
  then show "length sel = length ids"
    using assms by (simp add: distinct_card)
qed

lemma selection_distinct_step:
  assumes "distinct (map tid (transactions c))" and "distinct (selectedIds c)"
    and "e = ToggleAll \<or> e = ActionComplete \<or> (\<exists>i. e = ToggleOne i) \<or> (\<exists>fw. e = SortClick fw)"
  shows "distinct (map tid (transactions (step c e))) \<and> distinct (selectedIds (step c e))"
  using assms by (auto simp: toggleAllRows_def toggleOneRow_def)

text \<open>
  C3, as amended. \<open>toggleAllRows\<close> compares the number of selected identifiers with
  the number of listed transactions. For a transaction list with distinct identifiers
  and a selection without duplicates that holds only identifiers of listed
  transactions, it clears the selection if every listed identifier is selected, and
  otherwise sets the selection to the identifiers of all listed transactions. From the
  empty selection over the list A, B, C, the first toggle-all gives A, B, C and the
  second gives the empty selection.
\<close>

theorem toggle_all_rows:
  assumes "distinct (map tid ts)" and "distinct sel" and "set sel \<subseteq> set (map tid ts)"
  shows "(set (map tid ts) \<subseteq> set sel \<longrightarrow> toggleAllRows ts sel = [])
       \<and> (\<not> set (map tid ts) \<subseteq> set sel \<longrightarrow> toggleAllRows ts sel = map tid ts)
       \<and> toggleAllRows listABC [] = [''A'', ''B'', ''C'']
       \<and> toggleAllRows listABC (toggleAllRows listABC []) = []"
proof -
  have "length sel = length ts \<longleftrightarrow> set (map tid ts) \<subseteq> set sel"
    using eq_length_iff_all_selected [OF assms] by simp
  then have "(set (map tid ts) \<subseteq> set sel \<longrightarrow> toggleAllRows ts sel = [])
       \<and> (\<not> set (map tid ts) \<subseteq> set sel \<longrightarrow> toggleAllRows ts sel = map tid ts)"
    by (simp add: toggleAllRows_def)
  moreover have "toggleAllRows listABC [] = [''A'', ''B'', ''C'']"
    by (simp add: toggleAllRows_def listABC_def sampleTransaction_def)
  moreover have "toggleAllRows listABC [''A'', ''B'', ''C''] = []"
    by (simp add: toggleAllRows_def listABC_def)
  ultimately show ?thesis by simp
qed

theorem toggle_all_rows_witness:
  "distinct (map tid listABC)
   \<and> set [''A'', ''B'', ''C''] \<subseteq> set (map tid listABC)
   \<and> set (map tid listABC) \<subseteq> set [''A'', ''B'', ''C'']
   \<and> toggleAllRows listABC [''A'', ''B'', ''C''] = []
   \<and> set [''B''] \<subseteq> set (map tid listABC)
   \<and> \<not> set (map tid listABC) \<subseteq> set [''B'']
   \<and> toggleAllRows listABC [''B''] = [''A'', ''B'', ''C'']"
  using toggle_all_rows [of listABC "[''A'', ''B'', ''C'']"]
    toggle_all_rows [of listABC "[''B'']"]
  by (simp add: listABC_def sampleTransaction_def)

text \<open>
  C3 as stated fails for a selection left over from an earlier transaction list: with X
  selected and the list replaced by the single transaction A, not every listed
  identifier is selected, yet toggle-all clears the selection instead of selecting A.
\<close>

theorem toggle_all_rows_counterexample:
  "selectedIds (step selectedX (NewTransactions [sampleTransaction ''A'' None None])) = [''X'']
   \<and> map tid (transactions (step selectedX (NewTransactions [sampleTransaction ''A'' None None])))
       = [''A'']
   \<and> \<not> set [''A''] \<subseteq> set [''X'']
   \<and> selectedIds (step (step selectedX (NewTransactions [sampleTransaction ''A'' None None]))
        ToggleAll) = []"
  by (simp add: selectedX_def run_def mount_def toggleOneRow_def toggleAllRows_def
      sampleTransaction_def)

text \<open>
  C4, as amended. The selection holds only identifiers of listed transactions when the
  component is mounted, and from a state in which it does, it still does after
  toggle-all, after toggle-one of a listed transaction, after the reset on completion of
  a bulk action and after a click on a column header. Supplying a new transaction list
  leaves the selection as it was: afterwards the selection holds only listed identifiers
  exactly when every selected identifier is also in the new list.
\<close>

theorem selection_invariant:
  assumes "selectionListed c"
  shows "selectionListed (mount ts0 ps)
       \<and> selectionListed (step c ToggleAll)
       \<and> (i \<in> set (map tid (transactions c)) \<longrightarrow> selectionListed (step c (ToggleOne i)))
       \<and> selectionListed (step c ActionComplete)
       \<and> selectionListed (step c (SortClick fw))
       \<and> selectedIds (step c (NewTransactions ts)) = selectedIds c
       \<and> (selectionListed (step c (NewTransactions ts))
            \<longleftrightarrow> set (selectedIds c) \<subseteq> set (map tid ts))"
  using assms
  by (auto simp: selectionListed_def mount_def toggleAllRows_def toggleOneRow_def)

theorem selection_invariant_witness:
  "selectionListed selectedX
   \<and> selectedIds selectedX = [''X'']
   \<and> selectionListed (step selectedX ToggleAll)
   \<and> ''X'' \<in> set (map tid (transactions selectedX))
   \<and> selectionListed (step selectedX (ToggleOne ''X''))
   \<and> selectionListed (step selectedX ActionComplete)
   \<and> selectionListed (step selectedX
        (NewTransactions [sampleTransaction ''A'' None None, sampleTransaction ''X'' None None]))"
  using selection_invariant [where c = selectedX and i = "''X''"
      and ts = "[sampleTransaction ''A'' None None, sampleTransaction ''X'' None None]"]
  by (simp add: selectedX_def run_def mount_def toggleOneRow_def selectionListed_def
      sampleTransaction_def)

text \<open>
  C4 as stated fails for a new transaction list: with X listed and selected, replacing
  the list by the single transaction A leaves X selected, which is no longer listed.
\<close>

theorem selection_invariant_counterexample:
  "selectionListed selectedX
   \<and> selectedIds (step selectedX (NewTransactions [sampleTransaction ''A'' None None])) = [''X'']
   \<and> \<not> selectionListed (step selectedX (NewTransactions [sampleTransaction ''A'' None None]))"
  by (simp add: selectedX_def run_def mount_def toggleOneRow_def selectionListed_def
      sampleTransaction_def)

subsection \<open>The renderer registry\<close>

lemma standard_codes:
  "map fst standardFieldRenderers =
     [''name'', ''merchant'', ''issuedAt'', ''projectCode'', ''categoryCode'', ''files'',
      ''total'', ''convertedTotal'', ''currencyCode'']"
  by (simp add: standardFieldRenderers_def)

lemma getFieldRenderer_standard:
  "map_of standardFieldRenderers (code f) = Some r \<Longrightarrow> getFieldRenderer f = Configured r"
  by (simp add: getFieldRenderer_def getProp_def)

lemma standard_renderer_code:
  "map_of standardFieldRenderers k = Some r \<Longrightarrow> rcode r = k"
  by (auto simp: standardFieldRenderers_def split: if_splits)

lemma getFieldRenderer_fallback:
  "code f \<notin> set (map fst standardFieldRenderers) \<Longrightarrow> code f \<notin> set objectPrototypeKeys \<Longrightarrow>
   getFieldRenderer f = Configured (fallbackRenderer f)"
  by (simp add: getFieldRenderer_def getProp_def map_of_eq_None_iff [THEN iffD2])

lemma getFieldRenderer_other_plain:
  "code f \<notin> set (map fst standardFieldRenderers) \<Longrightarrow>
   \<not> rendererSortable (getFieldRenderer f) \<and> rendererFormatValue (getFieldRenderer f) = None
   \<and> rendererFooterValue (getFieldRenderer f) = None"
  by (simp add: getFieldRenderer_def getProp_def map_of_eq_None_iff [THEN iffD2]
      fallbackRenderer_def)

text \<open>
  C5, at the field code \<open>constructor\<close>, which is none of the nine standard codes: the
  read \<open>standardFieldRenderers["constructor"]\<close> finds the member that the object
  literal inherits from \<open>Object.prototype\<close>, which is truthy, so \<open>getFieldRenderer\<close>
  returns it and not the fallback renderer; its \<open>name\<close> is \<open>Object\<close>, not the display
  name of the field definition.
\<close>

theorem getFieldRenderer_inherited_member:
  "''constructor'' \<notin> set (map fst standardFieldRenderers)
   \<and> getFieldRenderer (sampleField ''constructor'' False) = PrototypeMember ''constructor''
   \<and> getFieldRenderer (sampleField ''constructor'' False)
       \<noteq> Configured (fallbackRenderer (sampleField ''constructor'' False))
   \<and> rendererName (getFieldRenderer (sampleField ''constructor'' False)) = Some ''Object''
   \<and> name (sampleField ''constructor'' False) = ''Notes''"
  by (simp add: getFieldRenderer_def getProp_def standardFieldRenderers_def
      objectPrototypeKeys_def sampleField_def)

subsection \<open>Cell values\<close>

lemma renderFieldInTable_extra_absent:
  "isExtra fw \<Longrightarrow>
   extra t = None
     \<or> (\<exists>e. extra t = Some e \<and> map_of e (code fw) = None \<and> code fw \<notin> set objectPrototypeKeys) \<Longrightarrow>
   renderFieldInTable t fw = Val (JStr [])"
  by (auto simp: renderFieldInTable_def jsGet_def getProp_def)

lemma renderFieldInTable_extra_present:
  "isExtra fw \<Longrightarrow> extra t = Some e \<Longrightarrow> map_of e (code fw) = Some v \<Longrightarrow>
   renderFieldInTable t fw = (if v = JNull \<or> v = JUndefined then Val (JStr []) else Val v)"
  by (auto simp: renderFieldInTable_def jsGet_def getProp_def)

lemma renderFieldInTable_formatter:
  "\<not> isExtra fw \<Longrightarrow> rendererFormatValue (renderer fw) = Some format \<Longrightarrow>
   renderFieldInTable t fw = format t"
  by (simp add: renderFieldInTable_def)

lemma renderFieldInTable_attribute:
  "\<not> isExtra fw \<Longrightarrow> rendererFormatValue (renderer fw) = None \<Longrightarrow>
   renderFieldInTable t fw = StringOf (jsGet (transactionObject t) (code fw))"
  by (simp add: renderFieldInTable_def)

lemma renderFieldInTable_custom1:
  "renderFieldInTable extraSample (withRenderer (sampleField ''custom1'' True)) = Val (JStr [])"
  by (simp add: renderFieldInTable_def jsGet_def getProp_def objectPrototypeKeys_def
      withRenderer_def sampleField_def extraSample_def)

text \<open>
  C6, at a field marked extra with the code \<open>constructor\<close> and a transaction whose
  extra mapping has no such key: the read \<open>transaction.extra?.["constructor"]\<close> finds
  the member inherited from \<open>Object.prototype\<close>, which is neither \<open>null\<close> nor
  \<open>undefined\<close>, so the cell value is that built-in and not the empty string.
\<close>

theorem renderFieldInTable_inherited_member:
  "extra extraSample = Some [(''custom2'', JStr ''x'')]
   \<and> map_of [(''custom2'', JStr ''x'')] ''constructor'' = None
   \<and> isExtra (withRenderer (sampleField ''constructor'' True))
   \<and> renderFieldInTable extraSample (withRenderer (sampleField ''constructor'' True))
       = Val (JBuiltin ''constructor'')"
  by (simp add: renderFieldInTable_def jsGet_def getProp_def objectPrototypeKeys_def
      withRenderer_def sampleField_def extraSample_def)

subsection \<open>The "total" formatter\<close>

lemma totalFormatValue_shape:
  "totalFormatValue t =
     Element ''div'' [ClassName ''text-right text-lg'']
       [Element ''div'' [ClassNames [typeColor (ttype t), JStr ''flex flex-col justify-end'']]
          [Element ''span'' [] [totalPrimary t], totalConverted t]]"
  by (simp add: totalFormatValue_def)

lemma typeColor_tags:
  "typeColor (Some ''income'') = JStr ''text-green-500''"
  "typeColor (Some ''expense'') = JStr ''text-red-500''"
  "typeColor (Some ''other'') = JStr ''text-black''"
  "typeColor None = JStr ''text-black''"
  by (simp_all add: typeColor_def jsGet_def getProp_def)

lemma totalPrimary_formatted:
  "total t = Some a \<Longrightarrow> a \<noteq> 0 \<Longrightarrow> currencyCode t = Some c \<Longrightarrow> c \<noteq> [] \<Longrightarrow>
   totalPrimary t = FormatCurrency a c"
  by (simp add: totalPrimary_def truthyNum_def truthyStr_def)

lemma totalPrimary_missing:
  "total t = None \<or> currencyCode t = None \<Longrightarrow> totalPrimary t = Val (numVal (total t))"
  by (auto simp: totalPrimary_def truthyNum_def truthyStr_def)

lemma totalConverted_other_currency:
  "convertedTotal t = Some a \<Longrightarrow> a \<noteq> 0 \<Longrightarrow> convertedCurrencyCode t = Some c \<Longrightarrow> c \<noteq> [] \<Longrightarrow>
   currencyCode t \<noteq> Some c \<Longrightarrow>
   totalConverted t =
     Element ''span'' [ClassName ''text-sm -mt-1'']
       [Val (JStr ''(''), FormatCurrency a c, Val (JStr '')'')]"
  by (simp add: totalConverted_def)

lemma totalConverted_same_currency:
  "convertedTotal t = Some a \<Longrightarrow> a \<noteq> 0 \<Longrightarrow> convertedCurrencyCode t = Some c \<Longrightarrow> c \<noteq> [] \<Longrightarrow>
   currencyCode t = Some c \<Longrightarrow> totalConverted t = Val (JBool False)"
  by (simp add: totalConverted_def)

lemma totalConverted_missing:
  "convertedTotal t = None \<or> (convertedTotal t \<noteq> Some 0 \<and> convertedCurrencyCode t = None) \<Longrightarrow>
   totalConverted t = Val JNull"
  by (auto simp: totalConverted_def split: option.splits)

text \<open>
  C7, at a transaction of 1250 USD whose converted total is 0 EUR, and at one of 0 USD:
  the converted amount exists and its currency differs from that of the total, yet the
  value after the first line is the number 0 (the first operand of the \<open>&&\<close> chain,
  which is shown as a bare 0) and not the converted amount formatted in EUR; and a total
  of 0 USD is shown as the bare number 0, not formatted in USD.
\<close>

theorem totalFormatValue_zero_amounts:
  "total (convertedSample (Some ''expense'') 1250 ''USD'' 0 ''EUR'') = Some 1250
   \<and> currencyCode (convertedSample (Some ''expense'') 1250 ''USD'' 0 ''EUR'') = Some ''USD''
   \<and> convertedTotal (convertedSample (Some ''expense'') 1250 ''USD'' 0 ''EUR'') = Some 0
   \<and> convertedCurrencyCode (convertedSample (Some ''expense'') 1250 ''USD'' 0 ''EUR'') = Some ''EUR''
   \<and> totalFormatValue (convertedSample (Some ''expense'') 1250 ''USD'' 0 ''EUR'') =
       Element ''div'' [ClassName ''text-right text-lg'']
         [Element ''div''
            [ClassNames [JStr ''text-red-500'', JStr ''flex flex-col justify-end'']]
            [Element ''span'' [] [FormatCurrency 1250 ''USD''], Val (JNum 0)]]
   \<and> totalFormatValue (convertedSample None 0 ''USD'' 0 ''EUR'') =
       Element ''div'' [ClassName ''text-right text-lg'']
         [Element ''div''
            [ClassNames [JStr ''text-black'', JStr ''flex flex-col justify-end'']]
            [Element ''span'' [] [Val (JNum 0)], Val (JNum 0)]]"
  by (simp add: convertedSample_def sampleTransaction_def totalFormatValue_def typeColor_def
      jsGet_def getProp_def totalPrimary_def totalConverted_def truthyNum_def truthyStr_def
      numVal_def)

subsection \<open>Footer aggregation\<close>

lemma objectEntries_numeric_keys:
  "objectEntries [(''USD'', 1::int), (''978'', 2), (''840'', 3), (''007'', 4)]
     = [(''840'', 3), (''978'', 2), (''USD'', 1), (''007'', 4)]"
  by (simp add: objectEntries_def isArrayIndex_def isDigit_def decimalValue_def digitValue_def)

text \<open>
  C8. Over the three transactions 100 USD, -40 USD and 50 EUR, the net total per
  currency is USD 60 and EUR 50, and the turnover per currency is USD 140 and EUR 50,
  each with one entry per currency code; the footer of the "total" column renders these
  entries.
\<close>

theorem footer_example:
  "map_of (calcNetTotalPerCurrency footerExample) = [''USD'' \<mapsto> 60, ''EUR'' \<mapsto> 50]
   \<and> map_of (calcTotalPerCurrency footerExample) = [''USD'' \<mapsto> 140, ''EUR'' \<mapsto> 50]
   \<and> distinct (map fst (calcNetTotalPerCurrency footerExample))
   \<and> distinct (map fst (calcTotalPerCurrency footerExample))
   \<and> totalFooterValue footerExample =
       Element ''div'' [ClassName ''flex flex-col gap-3 text-right'']
         [Element ''dl'' [ClassName ''space-y-1'']
            [Element ''dt''
               [ClassName ''text-xs font-semibold text-muted-foreground uppercase tracking-wide'']
               [Val (JStr ''Net Total'')],
             Element ''dd''
               [Key ''net-USD'',
                ClassNames [JStr ''text-sm first:text-base font-medium'', JStr ''text-green-600'']]
               [FormatCurrency 60 ''USD''],
             Element ''dd''
               [Key ''net-EUR'',
                ClassNames [JStr ''text-sm first:text-base font-medium'', JStr ''text-green-600'']]
               [FormatCurrency 50 ''EUR'']],
          Element ''dl'' [ClassName ''space-y-1'']
            [Element ''dt''
               [ClassName ''text-xs font-semibold text-muted-foreground uppercase tracking-wide'']
               [Val (JStr ''Turnover'')],
             Element ''dd''
               [Key ''turnover-USD'', ClassName ''text-sm text-muted-foreground'']
               [FormatCurrency 140 ''USD''],
             Element ''dd''
               [Key ''turnover-EUR'', ClassName ''text-sm text-muted-foreground'']
               [FormatCurrency 50 ''EUR'']]]"
proof -
  have net: "calcNetTotalPerCurrency footerExample = [(''USD'', 60), (''EUR'', 50)]"
    by (simp add: calcNetTotalPerCurrency_def footerExample_def sampleTransaction_def
        amountOf_def)
  have turnover: "calcTotalPerCurrency footerExample = [(''USD'', 140), (''EUR'', 50)]"
    by (simp add: calcTotalPerCurrency_def footerExample_def sampleTransaction_def
        amountOf_def)
  have entries: "objectEntries [(''USD'', 60::int), (''EUR'', 50)] = [(''USD'', 60), (''EUR'', 50)]"
    "objectEntries [(''USD'', 140::int), (''EUR'', 50)] = [(''USD'', 140), (''EUR'', 50)]"
    by (simp_all add: objectEntries_def isArrayIndex_def isDigit_def)
  show ?thesis
    by (auto simp: net turnover entries totalFooterValue_def)
qed

end
